theory Spec2Isabelle
  imports Complex_Main "HOL-Library.Multiset"
begin

section \<open>Snake BnB: the availability and booking matcher\<close>

text \<open>
  A shallow embedding of \<^verbatim>\<open>services/data_service.py\<close> and of the documents in
  \<^verbatim>\<open>data/\<close>. Conventions:
  \<^item> a naive \<^verbatim>\<open>datetime\<close> is the number of microseconds since 0001-01-01 00:00:00
    (Python's resolution), an \<^verbatim>\<open>int\<close>;
  \<^item> an \<^verbatim>\<open>ObjectId\<close> is a \<^verbatim>\<open>nat\<close>; the documents handled here are stored ones,
    so their own id is present; an unset field of a document is \<open>None\<close>;
  \<^item> a \<^verbatim>\<open>FloatField\<close> holds a finite number, modelled as a rational: the code only
    compares these fields and divides one by 4, which is exact on binary floats
    (underflow aside);
  \<^item> the document database is a record of three collections, each a list of
    documents in the store's natural order; it keeps field values as they are saved.
\<close>

subsection \<open>Dates and time spans\<close>

type_synonym datetime = int

definition US_PER_DAY :: int where
  "US_PER_DAY = 86400000000"

text \<open>\<^verbatim>\<open>datetime.max\<close> is 9999-12-31 23:59:59.999999, the last microsecond of day 3652059.\<close>

definition MAX_US :: int where
  "MAX_US = 3652059 * US_PER_DAY"

definition valid_datetime :: "datetime \<Rightarrow> bool" where
  "valid_datetime t \<longleftrightarrow> 0 \<le> t \<and> t < MAX_US"

text \<open>Midnight of the day with proleptic Gregorian ordinal \<open>n\<close> (\<^verbatim>\<open>datetime.fromordinal\<close>).\<close>

definition fromordinal :: "int \<Rightarrow> datetime" where
  "fromordinal n = (n - 1) * US_PER_DAY"

text \<open>
  A \<^verbatim>\<open>timedelta\<close> is kept normalised by Python: \<open>0 \<le> seconds < 86400\<close>,
  \<open>0 \<le> microseconds < 1000000\<close>, and only \<open>days\<close> carries the sign. The fields are
  prefixed here, \<open>days\<close> being a parameter name of the service below.
\<close>

record timedelta =
  td_days :: int
  td_seconds :: int
  td_microseconds :: int

definition timedelta_of_us :: "int \<Rightarrow> timedelta" where
  "timedelta_of_us us =
     \<lparr>td_days = us div US_PER_DAY,
      td_seconds = (us mod US_PER_DAY) div 1000000,
      td_microseconds = us mod 1000000\<rparr>"

definition total_us :: "timedelta \<Rightarrow> int" where
  "total_us d = td_days d * US_PER_DAY + td_seconds d * 1000000 + td_microseconds d"

text \<open>\<^verbatim>\<open>a - b\<close> on two datetimes.\<close>

definition datetime_sub :: "datetime \<Rightarrow> datetime \<Rightarrow> timedelta" where
  "datetime_sub a b = timedelta_of_us (a - b)"

datatype error = AttributeError | OverflowError

text \<open>
  \<^verbatim>\<open>start + datetime.timedelta(days=n)\<close>: the constructor refuses more than 999999999
  days in either direction, and the sum must be a datetime of the years 1 to 9999.
\<close>

definition datetime_add_days :: "datetime \<Rightarrow> int \<Rightarrow> error + datetime" where
  "datetime_add_days start n =
     (if \<bar>n\<bar> > 999999999 then Inl OverflowError
      else if valid_datetime (start + n * US_PER_DAY) then Inr (start + n * US_PER_DAY)
      else Inl OverflowError)"

subsection \<open>Documents\<close>

record Booking =
  guest_owner_id :: "nat option"
  guest_snake_id :: "nat option"
  booked_date :: "datetime option"
  check_in_date :: datetime
  check_out_date :: datetime
  review :: "string option"
  rating :: int

record Cage =
  cage_id :: nat
  cage_registered_date :: datetime
  cage_name :: string
  price :: rat
  square_meters :: rat
  is_carpeted :: bool
  has_toys :: bool
  allow_dangerous_snakes :: bool
  bookings :: "Booking list"

record Snake =
  snake_id :: nat
  snake_registered_date :: datetime
  species :: string
  snake_name :: string
  snake_length :: rat
  is_venomous :: bool

record Owner =
  owner_id :: nat
  owner_registered_date :: datetime
  owner_name :: string
  email :: string
  snake_ids :: "nat list"
  cage_ids :: "nat list"

record Store =
  owners :: "Owner list"
  snakes :: "Snake list"
  cages :: "Cage list"

text \<open>\<^verbatim>\<open>Booking.duration_in_days\<close>: \<^verbatim>\<open>dt = check_out_date - check_in_date; return dt.days\<close>.\<close>

definition duration_in_days :: "Booking \<Rightarrow> int" where
  "duration_in_days b = td_days (datetime_sub (check_out_date b) (check_in_date b))"

text \<open>\<^verbatim>\<open>Booking()\<close> with the two dates assigned: every other field at its default.\<close>

definition new_booking :: "datetime \<Rightarrow> datetime \<Rightarrow> Booking" where
  "new_booking ci co =
     \<lparr>guest_owner_id = None, guest_snake_id = None, booked_date = None,
      check_in_date = ci, check_out_date = co, review = None, rating = 0\<rparr>"

subsection \<open>The store\<close>

text \<open>
  \<^verbatim>\<open>Cage.objects(id=...).first()\<close> is \<open>find\<close> on the collection. \<^verbatim>\<open>cage.save()\<close> writes
  the document back under its id: it replaces the stored document of that id, and
  inserts the document when the collection has none.
\<close>

definition save_cage :: "Cage \<Rightarrow> Store \<Rightarrow> Store" where
  "save_cage c db =
     (if list_ex (\<lambda>d. cage_id d = cage_id c) (cages db)
      then db\<lparr>cages := map (\<lambda>d. if cage_id d = cage_id c then c else d) (cages db)\<rparr>
      else db\<lparr>cages := cages db @ [c]\<rparr>)"

text \<open>
  \<^verbatim>\<open>order_by('price', '-square_meters')\<close> is evaluated by the store. The code relies on
  it for the order alone, so the operation below takes the store's sort as a parameter
  \<open>order_by\<close>; what a document database promises of it is that the documents come
  back rearranged, cheaper first and, at the same price, larger first. The order of
  documents equal on both keys is the store's choice.
\<close>

definition price_then_size :: "Cage \<Rightarrow> Cage \<Rightarrow> bool" where
  "price_then_size a b \<longleftrightarrow>
     price a < price b \<or> (price a = price b \<and> square_meters a \<ge> square_meters b)"

definition store_sort :: "(Cage list \<Rightarrow> Cage list) \<Rightarrow> bool" where
  "store_sort order_by \<longleftrightarrow>
     (\<forall>xs. mset (order_by xs) = mset xs \<and> sorted_wrt price_then_size (order_by xs))"

text \<open>
  Two sorts a store may implement, both by insertion: the first keeps documents equal
  on both keys in collection order, the second returns them in the opposite order.
\<close>

fun place_cage :: "Cage \<Rightarrow> Cage list \<Rightarrow> Cage list" where
  "place_cage c [] = [c]"
| "place_cage c (d # ds) =
     (if price_then_size c d then c # d # ds else d # place_cage c ds)"

definition order_by_keeping_ties :: "Cage list \<Rightarrow> Cage list" where
  "order_by_keeping_ties xs = foldr place_cage xs []"


subsection \<open>The service\<close>

text \<open>
  The test both loops apply to a window (lines 222 and 259):
  \<^verbatim>\<open>b.check_in_date <= checkin and b.check_out_date >= checkout and b.guest_snake_id is None\<close>.
\<close>

definition window_free :: "Booking \<Rightarrow> datetime \<Rightarrow> datetime \<Rightarrow> bool" where
  "window_free b checkin checkout \<longleftrightarrow>
     check_in_date b \<le> checkin \<and> check_out_date b \<ge> checkout \<and> guest_snake_id b = None"

text \<open>
  \<^verbatim>\<open>add_available_date(cage, start_date, days)\<close>. The window is built first (the date
  arithmetic may raise), then the cage is fetched again by id; \<^verbatim>\<open>first()\<close> yields
  \<^verbatim>\<open>None\<close> when the id is not stored, and \<^verbatim>\<open>cage.bookings\<close> raises on it. The result
  is the value returned (or the exception) and the store after the call.
\<close>

definition add_available_date :: "Store \<Rightarrow> Cage \<Rightarrow> datetime \<Rightarrow> int \<Rightarrow> (error + Cage) \<times> Store" where
  "add_available_date db cage start_date days =
     (case datetime_add_days start_date days of
        Inl e \<Rightarrow> (Inl e, db)
      | Inr check_out \<Rightarrow>
          (let booking = new_booking start_date check_out
           in case find (\<lambda>c. cage_id c = cage_id cage) (cages db) of
                None \<Rightarrow> (Inl AttributeError, db)
              | Some fetched \<Rightarrow>
                  (let cage = fetched\<lparr>bookings := bookings fetched @ [booking]\<rparr>
                   in (Inr cage, save_cage cage db))))"

text \<open>
  \<^verbatim>\<open>get_available_cages(checkin, checkout, snake)\<close>. The three chained filters are one
  query; a condition on \<^verbatim>\<open>bookings__...\<close> holds of a cage when some embedded window
  meets it, each condition by a window of its own. The nested loops follow, with
  \<^verbatim>\<open>break\<close> after the first free window of a cage. The result is the list returned and
  the store after the call.
\<close>

fun scan_bookings :: "Cage list \<Rightarrow> Cage \<Rightarrow> Booking list \<Rightarrow> datetime \<Rightarrow> datetime \<Rightarrow> Cage list" where
  "scan_bookings final_cages c [] checkin checkout = final_cages"
| "scan_bookings final_cages c (b # bs) checkin checkout =
     (if window_free b checkin checkout then final_cages @ [c]
      else scan_bookings final_cages c bs checkin checkout)"

fun scan_cages :: "Cage list \<Rightarrow> Cage list \<Rightarrow> datetime \<Rightarrow> datetime \<Rightarrow> Cage list" where
  "scan_cages final_cages [] checkin checkout = final_cages"
| "scan_cages final_cages (c # cs) checkin checkout =
     scan_cages (scan_bookings final_cages c (bookings c) checkin checkout) cs checkin checkout"

text \<open>\<open>candidates\<close> is the query as it stands before \<^verbatim>\<open>order_by\<close>.\<close>

definition candidates :: "Store \<Rightarrow> datetime \<Rightarrow> datetime \<Rightarrow> Snake \<Rightarrow> Cage list" where
  "candidates db checkin checkout snake =
     (let min_size = snake_length snake / 4;
          query = filter (\<lambda>c. square_meters c \<ge> min_size) (cages db);
          query = filter (\<lambda>c. list_ex (\<lambda>b. check_in_date b \<le> checkin) (bookings c)) query;
          query = filter (\<lambda>c. list_ex (\<lambda>b. check_out_date b \<ge> checkout) (bookings c)) query
      in if is_venomous snake then filter allow_dangerous_snakes query else query)"

definition get_available_cages ::
  "(Cage list \<Rightarrow> Cage list) \<Rightarrow> Store \<Rightarrow> datetime \<Rightarrow> datetime \<Rightarrow> Snake \<Rightarrow> Cage list \<times> Store" where
  "get_available_cages order_by db checkin checkout snake =
     (let query = candidates db checkin checkout snake;
          sorted_cages = order_by query
      in (scan_cages [] sorted_cages checkin checkout, db))"

text \<open>
  \<^verbatim>\<open>book_cage(account, snake, cage, checkin, checkout)\<close>. The loop leaves \<^verbatim>\<open>booking\<close> at
  the first free window, or at \<^verbatim>\<open>None\<close>; the first assignment after it then raises
  \<^verbatim>\<open>AttributeError\<close>, before anything is written. The window is an element of the
  cage's list, changed in place: its position is what the loop finds here. \<open>now\<close> is
  the clock reading. The result is the exception raised, if any, the cage object and
  the store after the call.
\<close>

fun find_booking :: "Booking list \<Rightarrow> datetime \<Rightarrow> datetime \<Rightarrow> nat option" where
  "find_booking [] checkin checkout = None"
| "find_booking (b # bs) checkin checkout =
     (if window_free b checkin checkout then Some 0
      else map_option Suc (find_booking bs checkin checkout))"

text \<open>The five assignments to the window found.\<close>

definition mark_booked :: "Booking \<Rightarrow> Owner \<Rightarrow> Snake \<Rightarrow> datetime \<Rightarrow> datetime \<Rightarrow> datetime \<Rightarrow> Booking" where
  "mark_booked booking account snake checkin checkout now =
     booking\<lparr>guest_owner_id := Some (owner_id account),
             guest_snake_id := Some (snake_id snake),
             check_in_date := checkin,
             check_out_date := checkout,
             booked_date := Some now\<rparr>"

definition book_cage ::
  "Store \<Rightarrow> Owner \<Rightarrow> Snake \<Rightarrow> Cage \<Rightarrow> datetime \<Rightarrow> datetime \<Rightarrow> datetime \<Rightarrow> error option \<times> Cage \<times> Store" where
  "book_cage db account snake cage checkin checkout now =
     (case find_booking (bookings cage) checkin checkout of
        None \<Rightarrow> (Some AttributeError, cage, db)
      | Some i \<Rightarrow>
          (let booking = mark_booked (bookings cage ! i) account snake checkin checkout now;
               cage = cage\<lparr>bookings := (bookings cage)[i := booking]\<rparr>
           in (None, cage, save_cage cage db)))"

subsection \<open>A small store\<close>

text \<open>
  Three cages, three snakes and a guest, for running the operations: two cages equal
  in price and size, the second with two identical open windows, and a cheaper cage
  too small for any of the snakes.
\<close>

text \<open>Day \<open>d\<close> of January 2024, at midnight (2024-01-01 has ordinal 738886).\<close>

definition jan :: "int \<Rightarrow> datetime" where
  "jan d = fromordinal (738885 + d)"

definition cage_one :: Cage where
  "cage_one = \<lparr>cage_id = 1, cage_registered_date = jan 1, cage_name = ''one'',
     price = 10, square_meters = 2, is_carpeted = False, has_toys = True,
     allow_dangerous_snakes = False, bookings = [new_booking (jan 1) (jan 10)]\<rparr>"

definition cage_two :: Cage where
  "cage_two = \<lparr>cage_id = 2, cage_registered_date = jan 1, cage_name = ''two'',
     price = 10, square_meters = 2, is_carpeted = True, has_toys = False,
     allow_dangerous_snakes = True,
     bookings = [new_booking (jan 1) (jan 10), new_booking (jan 1) (jan 10)]\<rparr>"

definition cage_small :: Cage where
  "cage_small = \<lparr>cage_id = 3, cage_registered_date = jan 1, cage_name = ''small'',
     price = 5, square_meters = 1 / 4, is_carpeted = False, has_toys = False,
     allow_dangerous_snakes = True, bookings = [new_booking (jan 1) (jan 10)]\<rparr>"

definition demo_store :: Store where
  "demo_store = \<lparr>owners = [], snakes = [], cages = [cage_one, cage_two, cage_small]\<rparr>"

definition python :: Snake where
  "python = \<lparr>snake_id = 1, snake_registered_date = jan 1, species = ''Python regius'',
     snake_name = ''Monty'', snake_length = 2, is_venomous = False\<rparr>"

definition viper :: Snake where
  "viper = \<lparr>snake_id = 2, snake_registered_date = jan 1, species = ''Vipera berus'',
     snake_name = ''Slim'', snake_length = 4, is_venomous = True\<rparr>"

definition cobra :: Snake where
  "cobra = \<lparr>snake_id = 3, snake_registered_date = jan 1, species = ''Ophiophagus hannah'',
     snake_name = ''King'', snake_length = 12, is_venomous = True\<rparr>"

definition guest :: Owner where
  "guest = \<lparr>owner_id = 7, owner_registered_date = jan 1, owner_name = ''Ann'',
     email = ''ann@example.org'', snake_ids = [1, 2, 3], cage_ids = []\<rparr>"

section \<open>Properties\<close>

subsection \<open>Time spans\<close>

lemma floor_div_bounds:
  fixes x d :: int
  assumes "0 < d"
  shows "x div d * d \<le> x" and "x < (x div d + 1) * d"
proof -
  have e: "x div d * d + x mod d = x" by simp
  have m: "0 \<le> x mod d" "x mod d < d" using assms by simp_all
  have s: "(x div d + 1) * d = x div d * d + d" by (simp add: algebra_simps)
  from e m show "x div d * d \<le> x" by linarith
  from e m s show "x < (x div d + 1) * d" by linarith
qed

lemma floor_div_negative:
  fixes x d :: int
  assumes "0 < d" "x < 0"
  shows "x div d < 0"
  using assms by (simp add: div_neg_pos_less0)

lemma timedelta_of_us_normalised:
  "0 \<le> td_seconds (timedelta_of_us us) \<and> td_seconds (timedelta_of_us us) < 86400 \<and>
   0 \<le> td_microseconds (timedelta_of_us us) \<and> td_microseconds (timedelta_of_us us) < 1000000"
proof -
  define r where "r = us mod (86400 * 1000000)"
  have r: "0 \<le> r" "r < 86400 * 1000000" by (simp_all add: r_def)
  have "0 \<le> r div 1000000" using r(1) by (simp add: pos_imp_zdiv_nonneg_iff)
  moreover have "r div 1000000 < 86400"
    using r(2) by (simp add: div_less_iff_less_mult)
  ultimately show ?thesis by (simp add: timedelta_of_us_def US_PER_DAY_def r_def)
qed

lemma total_us_timedelta_of_us: "total_us (timedelta_of_us us) = us"
proof -
  define r where "r = us mod US_PER_DAY"
  have a: "r div 1000000 * 1000000 + r mod 1000000 = r" by simp
  have b: "r mod 1000000 = us mod 1000000"
    by (simp add: r_def US_PER_DAY_def mod_mod_cancel)
  have c: "us div US_PER_DAY * US_PER_DAY + r = us" by (simp add: r_def)
  have "total_us (timedelta_of_us us) =
      us div US_PER_DAY * US_PER_DAY + r div 1000000 * 1000000 + us mod 1000000"
    by (simp add: total_us_def timedelta_of_us_def r_def)
  with a b c show ?thesis by linarith
qed

subsection \<open>The loops and the store's sort\<close>

lemma scan_bookings_eq:
  "scan_bookings final c bs checkin checkout =
     (if list_ex (\<lambda>b. window_free b checkin checkout) bs then final @ [c] else final)"
  by (induction bs) simp_all

lemma scan_cages_eq:
  "scan_cages final cs checkin checkout =
     final @ filter (\<lambda>c. list_ex (\<lambda>b. window_free b checkin checkout) (bookings c)) cs"
  by (induction cs arbitrary: final) (simp_all add: scan_bookings_eq)

lemma scan_bookings_first:
  assumes "\<not> list_ex (\<lambda>x. window_free x checkin checkout) pre" "window_free b checkin checkout"
  shows "scan_bookings final c (pre @ b # rest) checkin checkout = final @ [c]"
  using assms by (induction pre) simp_all

lemma price_then_size_total: "price_then_size a b \<or> price_then_size b a"
  by (auto simp: price_then_size_def)

lemma price_then_size_trans:
  "price_then_size a b \<Longrightarrow> price_then_size b c \<Longrightarrow> price_then_size a c"
  by (auto simp: price_then_size_def)

lemma mset_place_cage: "mset (place_cage c ds) = add_mset c (mset ds)"
  by (induction ds) simp_all

lemma set_place_cage: "set (place_cage c ds) = insert c (set ds)"
  by (induction ds) auto

lemma sorted_place_cage:
  "sorted_wrt price_then_size ds \<Longrightarrow> sorted_wrt price_then_size (place_cage c ds)"
proof (induction ds)
  case Nil
  then show ?case by simp
next
  case (Cons d ds)
  show ?case
  proof (cases "price_then_size c d")
    case True
    then have "\<forall>e\<in>set ds. price_then_size c e"
      using Cons.prems price_then_size_trans by auto
    with True Cons.prems show ?thesis by simp
  next
    case False
    then have "price_then_size d c" using price_then_size_total by blast
    with False Cons show ?thesis by (auto simp: set_place_cage)
  qed
qed

lemma mset_foldr_place: "mset (foldr place_cage xs []) = mset xs"
  by (induction xs) (simp_all add: mset_place_cage)

lemma sorted_foldr_place: "sorted_wrt price_then_size (foldr place_cage xs [])"
  by (induction xs) (simp_all add: sorted_place_cage)

lemma store_sort_keeping_ties: "store_sort order_by_keeping_ties"
  by (simp add: store_sort_def order_by_keeping_ties_def mset_foldr_place sorted_foldr_place)


lemma store_sort_set: "store_sort order_by \<Longrightarrow> set (order_by xs) = set xs"
  unfolding store_sort_def by (metis set_mset_mset)

lemma set_candidates:
  "c \<in> set (candidates db checkin checkout snake) \<longleftrightarrow>
     c \<in> set (cages db) \<and> square_meters c \<ge> snake_length snake / 4 \<and>
     (\<exists>b\<in>set (bookings c). check_in_date b \<le> checkin) \<and>
     (\<exists>b\<in>set (bookings c). check_out_date b \<ge> checkout) \<and>
     (is_venomous snake \<longrightarrow> allow_dangerous_snakes c)"
  by (auto simp: candidates_def Let_def list_ex_iff)

lemma fst_get_available_cages:
  "fst (get_available_cages order_by db checkin checkout snake) =
     filter (\<lambda>c. list_ex (\<lambda>b. window_free b checkin checkout) (bookings c))
       (order_by (candidates db checkin checkout snake))"
  by (simp add: get_available_cages_def Let_def scan_cages_eq)

lemma count_list_filter:
  "count_list (filter P xs) c = (if P c then count_list xs c else 0)"
  by (induction xs) auto

lemma count_list_distinct: "distinct xs \<Longrightarrow> c \<in> set xs \<Longrightarrow> count_list xs c = 1"
  by (induction xs) auto

lemma count_list_candidates:
  "count_list (candidates db checkin checkout snake) c =
     (if c \<in> set (candidates db checkin checkout snake) then count_list (cages db) c else 0)"
  by (auto simp: candidates_def Let_def count_list_filter list_ex_iff)

lemma count_list_order_by:
  "store_sort order_by \<Longrightarrow> count_list (order_by xs) c = count_list xs c"
  unfolding store_sort_def by (metis count_mset)

lemmas demo_defs = jan_def fromordinal_def US_PER_DAY_def cage_one_def cage_two_def cage_small_def
  demo_store_def python_def viper_def cobra_def guest_def new_booking_def


subsection \<open>Finding available cages\<close>






text \<open>
  C7. A stored cage that fits the snake and whose first free window for the stay is
  \<open>b\<close>, after the windows \<open>pre\<close>, is returned exactly once (the store holding each
  document once), however many free windows follow; and the scan of its windows ends at
  \<open>b\<close>: whatever windows stand after \<open>b\<close>, the cage is appended once.
\<close>

theorem get_available_cages_once:
  assumes "store_sort order_by"
    and "distinct (cages db)" and "c \<in> set (cages db)"
    and "square_meters c \<ge> snake_length snake / 4"
    and "is_venomous snake \<longrightarrow> allow_dangerous_snakes c"
    and "bookings c = pre @ b # rest"
    and "\<not> list_ex (\<lambda>x. window_free x checkin checkout) pre"
    and "window_free b checkin checkout"
  shows "count_list (fst (get_available_cages order_by db checkin checkout snake)) c = 1 \<and>
    (\<forall>others. scan_bookings final_cages c (pre @ b # others) checkin checkout = final_cages @ [c])"
proof -
  have free: "list_ex (\<lambda>x. window_free x checkin checkout) (bookings c)"
    using assms(6,8) by (simp add: list_ex_iff) 
  have "c \<in> set (candidates db checkin checkout snake)"
    unfolding set_candidates using assms(3,4,5,6,8) by (auto simp: window_free_def)
  then have "count_list (candidates db checkin checkout snake) c = 1"
    using assms(2,3) by (simp add: count_list_candidates count_list_distinct)
  then have "count_list (fst (get_available_cages order_by db checkin checkout snake)) c = 1"
    using free by (simp add: fst_get_available_cages count_list_filter count_list_order_by [OF assms(1)])
  moreover have "\<forall>others. scan_bookings final_cages c (pre @ b # others) checkin checkout = final_cages @ [c]"
    using scan_bookings_first [OF assms(7,8)] by simp
  ultimately show ?thesis by simp
qed

text \<open>The second cage has two free windows for the stay and is returned once.\<close>

theorem get_available_cages_once_witness:
  "store_sort order_by_keeping_ties \<and> distinct (cages demo_store) \<and> cage_two \<in> set (cages demo_store) \<and>
   bookings cage_two = [] @ new_booking (jan 1) (jan 10) # [new_booking (jan 1) (jan 10)] \<and>
   window_free (new_booking (jan 1) (jan 10)) (jan 2) (jan 5) \<and>
   count_list (fst (get_available_cages order_by_keeping_ties demo_store (jan 2) (jan 5) viper)) cage_two = 1"
proof -
  have h: "distinct (cages demo_store)" "cage_two \<in> set (cages demo_store)"
    "square_meters cage_two \<ge> snake_length viper / 4"
    "is_venomous viper \<longrightarrow> allow_dangerous_snakes cage_two"
    "bookings cage_two = [] @ new_booking (jan 1) (jan 10) # [new_booking (jan 1) (jan 10)]"
    "\<not> list_ex (\<lambda>x. window_free x (jan 2) (jan 5)) []"
    "window_free (new_booking (jan 1) (jan 10)) (jan 2) (jan 5)"
    by (simp_all add: demo_defs window_free_def)
  show ?thesis
    using get_available_cages_once [OF store_sort_keeping_ties h] h store_sort_keeping_ties
    by simp
qed

text \<open>
  C8. \<open>get_available_cages\<close> leaves the store as it found it, owners, snakes, cages
  and their windows alike, and the cages it returns are stored documents as they are.
\<close>

theorem get_available_cages_read_only:
  "snd (get_available_cages order_by db checkin checkout snake) = db \<and>
   (store_sort order_by \<longrightarrow>
      set (fst (get_available_cages order_by db checkin checkout snake)) \<subseteq> set (cages db))"
proof -
  have "snd (get_available_cages order_by db checkin checkout snake) = db"
    by (simp add: get_available_cages_def Let_def)
  moreover have "set (fst (get_available_cages order_by db checkin checkout snake)) \<subseteq> set (cages db)"
    if "store_sort order_by"
    unfolding fst_get_available_cages using store_sort_set [OF that] set_candidates by auto
  ultimately show ?thesis by blast
qed

theorem get_available_cages_read_only_witness:
  "store_sort order_by_keeping_ties \<and>
   snd (get_available_cages order_by_keeping_ties demo_store (jan 2) (jan 5) python) = demo_store \<and>
   set (fst (get_available_cages order_by_keeping_ties demo_store (jan 2) (jan 5) python))
     \<subseteq> set (cages demo_store)"
  using get_available_cages_read_only [of order_by_keeping_ties demo_store "jan 2" "jan 5" python]
    store_sort_keeping_ties
  by simp

subsection \<open>Booking a cage\<close>

lemma find_booking_None:
  "find_booking bs checkin checkout = None \<longleftrightarrow> \<not> list_ex (\<lambda>b. window_free b checkin checkout) bs"
  by (induction bs) simp_all

lemma find_booking_Some:
  "find_booking bs checkin checkout = Some i \<Longrightarrow>
     i < length bs \<and> window_free (bs ! i) checkin checkout"
  by (induction bs arbitrary: i) (auto split: if_splits)

lemma find_booking_first:
  assumes "\<not> list_ex (\<lambda>x. window_free x checkin checkout) pre" "window_free b checkin checkout"
  shows "find_booking (pre @ b # rest) checkin checkout = Some (length pre)"
  using assms by (induction pre) simp_all

lemma first_free_window:
  assumes "list_ex (\<lambda>x. window_free x checkin checkout) bs"
  obtains pre b rest where "bs = pre @ b # rest"
    "\<not> list_ex (\<lambda>x. window_free x checkin checkout) pre" "window_free b checkin checkout"
proof -
  from assms have "\<exists>x\<in>set bs. window_free x checkin checkout" by (simp add: list_ex_iff)
  from split_list_first_prop [OF this] obtain pre b rest where
    "bs = pre @ b # rest" "window_free b checkin checkout"
    "\<forall>y\<in>set pre. \<not> window_free y checkin checkout" by blast
  then show thesis using that by (simp add: list_ex_iff)
qed


lemma book_cage_at_first:
  assumes "bookings cage = pre @ b # rest"
    and "\<not> list_ex (\<lambda>x. window_free x checkin checkout) pre"
    and "window_free b checkin checkout"
  shows "book_cage db account snake cage checkin checkout now =
    (None,
     cage\<lparr>bookings := pre @ mark_booked b account snake checkin checkout now # rest\<rparr>,
     save_cage (cage\<lparr>bookings := pre @ mark_booked b account snake checkin checkout now # rest\<rparr>) db)"
  using assms by (simp add: book_cage_def find_booking_first Let_def)

lemma book_cage_None:
  assumes "\<not> list_ex (\<lambda>b. window_free b checkin checkout) (bookings cage)"
  shows "book_cage db account snake cage checkin checkout now = (Some AttributeError, cage, db)"
  using assms by (simp add: book_cage_def find_booking_None [THEN iffD2])



lemmas book_defs = book_cage_def mark_booked_def save_cage_def window_free_def Let_def

text \<open>
  C2, as stated, fails: the small cage has no window for the stay from 5 to 12 January,
  and \<open>book_cage\<close> ends in \<open>AttributeError\<close>, the exception of an attribute access on
  \<^verbatim>\<open>None\<close>. It is no error of this situation alone: adding a window to a cage unknown
  to the store ends in the same exception.
\<close>

theorem book_cage_no_window_counterexample:
  "\<not> list_ex (\<lambda>b. window_free b (jan 5) (jan 12)) (bookings cage_small) \<and>
   fst (book_cage demo_store guest python cage_small (jan 5) (jan 12) (jan 1)) = Some AttributeError \<and>
   fst (add_available_date demo_store (cage_small\<lparr>cage_id := 9\<rparr>) (jan 1) 3) = Inl AttributeError"
  by (simp add: demo_defs book_defs add_available_date_def datetime_add_days_def valid_datetime_def MAX_US_def)

text \<open>
  C2, amended. When no window of the cage starts no later than \<open>checkin\<close>, ends no
  earlier than \<open>checkout\<close> and has no guest snake, \<open>book_cage\<close> raises
  \<open>AttributeError\<close> (from the assignment to an attribute of \<^verbatim>\<open>None\<close>) before it has
  changed anything: the cage, with all its windows, and the store are as before.
\<close>

theorem book_cage_without_window:
  assumes "\<forall>b\<in>set (bookings cage).
     \<not> (check_in_date b \<le> checkin \<and> check_out_date b \<ge> checkout \<and> guest_snake_id b = None)"
  shows "book_cage db account snake cage checkin checkout now = (Some AttributeError, cage, db)"
proof -
  from assms have "\<not> list_ex (\<lambda>b. window_free b checkin checkout) (bookings cage)"
    by (simp add: list_ex_iff window_free_def)
  then show ?thesis by (rule book_cage_None)
qed

theorem book_cage_without_window_witness:
  "\<not> list_ex (\<lambda>b. check_in_date b \<le> jan 5 \<and> check_out_date b \<ge> jan 12 \<and> guest_snake_id b = None)
       (bookings cage_small) \<and>
   book_cage demo_store guest python cage_small (jan 5) (jan 12) (jan 1)
     = (Some AttributeError, cage_small, demo_store)"
proof -
  have n: "\<not> list_ex (\<lambda>b. check_in_date b \<le> jan 5 \<and> check_out_date b \<ge> jan 12 \<and> guest_snake_id b = None)
       (bookings cage_small)"
    by (simp add: demo_defs)
  then have h: "\<forall>b\<in>set (bookings cage_small).
     \<not> (check_in_date b \<le> jan 5 \<and> check_out_date b \<ge> jan 12 \<and> guest_snake_id b = None)"
    by (simp add: list_ex_iff)
  from book_cage_without_window [OF h] n show ?thesis by blast
qed






text \<open>
  C9. \<open>book_cage\<close> looks at the dates and the guest snake of the windows only: with a
  free window for the stay it succeeds and books it for the snake, whatever the snake's
  length and venom and whatever the cage's size and \<open>allow_dangerous_snakes\<close>.
\<close>

theorem book_cage_ignores_fit:
  assumes "\<exists>b\<in>set (bookings cage).
     check_in_date b \<le> checkin \<and> check_out_date b \<ge> checkout \<and> guest_snake_id b = None"
  shows "fst (book_cage db account snake cage checkin checkout now) = None \<and>
    (\<exists>b\<in>set (bookings (fst (snd (book_cage db account snake cage checkin checkout now)))).
       guest_snake_id b = Some (snake_id snake) \<and> guest_owner_id b = Some (owner_id account) \<and>
       check_in_date b = checkin \<and> check_out_date b = checkout) \<and>
    (\<forall>len venomous.
       book_cage db account (snake\<lparr>snake_length := len, is_venomous := venomous\<rparr>) cage
         checkin checkout now
       = book_cage db account snake cage checkin checkout now) \<and>
    (\<forall>size allow.
       fst (book_cage db account snake
             (cage\<lparr>square_meters := size, allow_dangerous_snakes := allow\<rparr>) checkin checkout now)
       = None)"
proof -
  from assms have "list_ex (\<lambda>b. window_free b checkin checkout) (bookings cage)"
    by (simp add: list_ex_iff window_free_def)
  then obtain pre b rest where s: "bookings cage = pre @ b # rest"
    "\<not> list_ex (\<lambda>x. window_free x checkin checkout) pre" "window_free b checkin checkout"
    by (rule first_free_window)
  have 1: "fst (book_cage db account snake cage checkin checkout now) = None"
    by (simp add: book_cage_at_first [OF s])
  have 2: "\<exists>b\<in>set (bookings (fst (snd (book_cage db account snake cage checkin checkout now)))).
       guest_snake_id b = Some (snake_id snake) \<and> guest_owner_id b = Some (owner_id account) \<and>
       check_in_date b = checkin \<and> check_out_date b = checkout"
    by (simp add: book_cage_at_first [OF s] mark_booked_def)
  have 3: "book_cage db account (snake\<lparr>snake_length := len, is_venomous := venomous\<rparr>) cage
         checkin checkout now
       = book_cage db account snake cage checkin checkout now" for len venomous
  proof -
    have mb: "mark_booked x account (snake\<lparr>snake_length := len, is_venomous := venomous\<rparr>)
        checkin checkout now = mark_booked x account snake checkin checkout now" for x
      by (simp add: mark_booked_def)
    show ?thesis unfolding book_cage_def mb by (rule refl)
  qed
  have 4: "fst (book_cage db account snake
             (cage\<lparr>square_meters := size, allow_dangerous_snakes := allow\<rparr>) checkin checkout now)
       = None" for size allow
  proof -
    have "bookings (cage\<lparr>square_meters := size, allow_dangerous_snakes := allow\<rparr>) = pre @ b # rest"
      using s(1) by simp
    from book_cage_at_first [OF this s(2,3)] show ?thesis by simp
  qed
  show ?thesis by (intro conjI allI 1 2 3 4)
qed

text \<open>
  The cobra is venomous and needs 3 square meters; the first cage has 2 and does not
  allow dangerous snakes. The booking succeeds.
\<close>

theorem book_cage_ignores_fit_witness:
  "(\<exists>b\<in>set (bookings cage_one).
     check_in_date b \<le> jan 2 \<and> check_out_date b \<ge> jan 5 \<and> guest_snake_id b = None) \<and>
   square_meters cage_one < snake_length cobra / 4 \<and>
   is_venomous cobra \<and> \<not> allow_dangerous_snakes cage_one \<and>
   fst (book_cage demo_store guest cobra cage_one (jan 2) (jan 5) (jan 1)) = None"
proof -
  have h: "\<exists>b\<in>set (bookings cage_one).
     check_in_date b \<le> jan 2 \<and> check_out_date b \<ge> jan 5 \<and> guest_snake_id b = None"
    by (simp add: demo_defs)
  have "fst (book_cage demo_store guest cobra cage_one (jan 2) (jan 5) (jan 1)) = None"
    using book_cage_ignores_fit [OF h] by (rule conjunct1)
  with h show ?thesis by (simp add: cage_one_def cobra_def)
qed

subsection \<open>Adding an availability window\<close>







subsection \<open>Duration of a stay\<close>

text \<open>
  C10. \<open>duration_in_days\<close> is the floor of the span between check-in and check-out in
  whole days: \<open>d\<close> days fit into the span and \<open>d + 1\<close> do not. Nothing clamps it: when
  check-out lies a day or more before check-in, the value is negative.
\<close>

theorem duration_in_days_floor:
  "duration_in_days b = (check_out_date b - check_in_date b) div US_PER_DAY \<and>
   duration_in_days b * US_PER_DAY \<le> check_out_date b - check_in_date b \<and>
   check_out_date b - check_in_date b < (duration_in_days b + 1) * US_PER_DAY \<and>
   (check_out_date b + US_PER_DAY \<le> check_in_date b \<longrightarrow> duration_in_days b < 0)"
proof -
  have d: "0 < US_PER_DAY" by (simp add: US_PER_DAY_def)
  have eq: "duration_in_days b = (check_out_date b - check_in_date b) div US_PER_DAY"
    by (simp add: duration_in_days_def datetime_sub_def timedelta_of_us_def)
  have "check_out_date b + US_PER_DAY \<le> check_in_date b \<Longrightarrow> duration_in_days b < 0"
    unfolding eq using d by (intro floor_div_negative) linarith+
  then show ?thesis
    unfolding eq using floor_div_bounds [OF d] by blast
qed

text \<open>
  A stay entered backwards, check-in on day 10 and check-out five microseconds into
  day 8: the span is two days short of five microseconds, and the duration is \<open>-2\<close>.
\<close>

theorem duration_in_days_floor_witness:
  "check_out_date (new_booking (fromordinal 10) (fromordinal 8 + 5)) + US_PER_DAY
     \<le> check_in_date (new_booking (fromordinal 10) (fromordinal 8 + 5)) \<and>
   duration_in_days (new_booking (fromordinal 10) (fromordinal 8 + 5)) = - 2"
proof -
  have "duration_in_days (new_booking (fromordinal 10) (fromordinal 8 + 5)) = - 2"
    by (simp add: duration_in_days_def datetime_sub_def timedelta_of_us_def
        new_booking_def fromordinal_def US_PER_DAY_def)
  then show ?thesis
    using duration_in_days_floor [of "new_booking (fromordinal 10) (fromordinal 8 + 5)"]
    by (simp add: new_booking_def fromordinal_def US_PER_DAY_def)
qed

end
